theory Spec2Isabelle
  imports Main
begin

section \<open>Calendar modes (DateTimeInput.tsx, lines 62-91)\<close>

text \<open>
  The union type \<^verbatim>\<open>CalendarMode\<close> of the source. The constructors are capitalised
  because \<open>year\<close>, \<open>month\<close>, ... are also field names of the component state.
\<close>

datatype CalendarMode = Year | Month | Day | Hour | Minute

text \<open>
  The lookup table \<^verbatim>\<open>nextMode\<close>. Its keys are exactly the five members of
  \<^verbatim>\<open>CalendarMode\<close>, so a lookup with a key of that type never misses.
\<close>

fun nextMode :: "CalendarMode \<Rightarrow> CalendarMode" where
  "nextMode Year = Month"
| "nextMode Month = Day"
| "nextMode Day = Hour"
| "nextMode Hour = Minute"
| "nextMode Minute = Year"

definition getNextMode :: "CalendarMode \<Rightarrow> CalendarMode" where
  "getNextMode currentMode = nextMode currentMode"

text \<open>The lookup table \<^verbatim>\<open>prevMode\<close>, in the order the source lists its entries.\<close>

fun prevMode :: "CalendarMode \<Rightarrow> CalendarMode" where
  "prevMode Minute = Hour"
| "prevMode Hour = Day"
| "prevMode Day = Month"
| "prevMode Month = Year"
| "prevMode Year = Minute"

definition getPrevMode :: "CalendarMode \<Rightarrow> CalendarMode" where
  "getPrevMode currentMode = prevMode currentMode"

text \<open>
  The prop \<^verbatim>\<open>startMode\<close> has the narrower type \<^verbatim>\<open>'year' | 'month' | 'day'\<close>; it is
  stored into the \<^verbatim>\<open>mode\<close> field of the state, which is a \<^verbatim>\<open>CalendarMode\<close>.
\<close>

datatype StartMode = StartYear | StartMonth | StartDay

fun modeOfStart :: "StartMode \<Rightarrow> CalendarMode" where
  "modeOfStart StartYear = Year"
| "modeOfStart StartMonth = Month"
| "modeOfStart StartDay = Day"

section \<open>Data model\<close>

text \<open>
  The value a picker hands to \<^verbatim>\<open>handleSelect\<close> (\<^verbatim>\<open>BasePickerOnChangeData.value\<close>): every
  field is a number or \<^verbatim>\<open>undefined\<close>.
\<close>

record BasePickerValue =
  year :: "int option"
  month :: "int option"
  date :: "int option"
  hour :: "int option"
  minute :: "int option"

text \<open>\<^verbatim>\<open>BaseInputState\<close> and \<^verbatim>\<open>DateTimeInputState extends BaseInputState\<close>.\<close>

record BaseInputState =
  popupIsClosed :: bool

record DateTimeInputState = BaseInputState +
  mode :: CalendarMode
  year :: "int option"
  month :: "int option"
  date :: "int option"
  hour :: "int option"
  minute :: "int option"

text \<open>
  The props. Only the fields that the modelled methods read are named; every other prop
  of the caller (\<^verbatim>\<open>initialDate\<close>, \<^verbatim>\<open>disable\<close>, \<^verbatim>\<open>minDate\<close>, \<^verbatim>\<open>maxDate\<close>, \<^verbatim>\<open>marked\<close>,
  \<^verbatim>\<open>inline\<close>, ...) lives in the extension part of the record, which the object spread
  \<^verbatim>\<open>{ ...this.props, value: v }\<close> copies as it is. \<^verbatim>\<open>MonthInputProps\<close> is the first
  record; \<^verbatim>\<open>DateTimeInputProps\<close> adds the fields of lines 101-107. The handler
  \<^verbatim>\<open>onChange\<close> is an opaque value of type \<open>'h\<close>, absent when the caller passes none.
\<close>

record 'h InputProps =
  "value" :: "string option"
  dateFormat :: string
  localization :: "string option"
  closable :: bool
  onChange :: "'h option"

record 'h DateTimeInputProps = "'h InputProps" +
  timeFormat :: string
  startMode :: StartMode
  divider :: string
  preserveViewMode :: bool
  dateTimeFormat :: "string option"

text \<open>
  What the source imports and this repository's two files do not define: the table
  \<^verbatim>\<open>TIME_FORMAT\<close> and \<^verbatim>\<open>parseValue\<close> of \<^verbatim>\<open>./parse\<close>, and the calls into the date library
  (\<^verbatim>\<open>moment(string, format)\<close>, \<^verbatim>\<open>moment(object)\<close>, \<^verbatim>\<open>isValid\<close>, \<^verbatim>\<open>locale\<close>, \<^verbatim>\<open>format\<close>
  and the getters). They are parameters of the model: every theorem below holds for each
  environment. \<open>'m\<close> is the type of the library's date objects.
\<close>

record 'm Env =
  TIME_FORMAT :: "string \<Rightarrow> string option"
  parseValue :: "string option \<Rightarrow> string \<Rightarrow> string option \<Rightarrow> 'm option"
  momentParse :: "string \<Rightarrow> string \<Rightarrow> 'm"
  momentObject :: "BasePickerValue \<Rightarrow> 'm"
  isValid :: "'m \<Rightarrow> bool"
  withLocale :: "'m \<Rightarrow> string \<Rightarrow> 'm"
  format :: "'m \<Rightarrow> string \<Rightarrow> string"
  getYear :: "'m \<Rightarrow> int"
  getMonth :: "'m \<Rightarrow> int"
  getDate :: "'m \<Rightarrow> int"
  getHour :: "'m \<Rightarrow> int"
  getMinute :: "'m \<Rightarrow> int"

text \<open>
  A task handed to \<^verbatim>\<open>tick\<close>: the three call sites pass \<^verbatim>\<open>switchToNextModeUndelayed\<close>,
  \<^verbatim>\<open>switchToPrevModeUndelayed\<close>, and \<^verbatim>\<open>handleSelectUndelayed\<close> with its two arguments.
\<close>

datatype 'e Task =
  SwitchToNextModeUndelayed
| SwitchToPrevModeUndelayed
| HandleSelectUndelayed 'e BasePickerValue

text \<open>
  A mounted component: its state, the tasks \<^verbatim>\<open>tick\<close> has scheduled and not yet run, and
  the calls made to the caller's \<^verbatim>\<open>onChange\<close> so far (handler, event, data), oldest
  first.
\<close>

record ('s, 'e, 'n) Component =
  state :: 's
  queue :: "'e Task list"
  notifications :: "'n list"

type_synonym ('h, 'e, 'z) DateTimeInput =
  "(DateTimeInputState, 'e, 'h \<times> 'e \<times> ('h, 'z) DateTimeInputProps_scheme) Component"

type_synonym ('h, 'e, 'z) MonthInput =
  "(BaseInputState, 'e, 'h \<times> 'e \<times> ('h, 'z) InputProps_scheme) Component"

section \<open>What the two files inherit or import\<close>

text \<open>
  \<^verbatim>\<open>invoke(this.props, 'onChange', e, data)\<close> (lodash): calls the handler when the props
  have one, and does nothing otherwise.
\<close>

definition invoke :: "('h, 'z) InputProps_scheme \<Rightarrow> 'e \<Rightarrow> 'n \<Rightarrow> ('s, 'e, 'h \<times> 'e \<times> 'n) Component
    \<Rightarrow> ('s, 'e, 'h \<times> 'e \<times> 'n) Component" where
  "invoke p e d c =
     (case onChange p of
        None \<Rightarrow> c
      | Some h \<Rightarrow> c\<lparr>notifications := notifications c @ [(h, e, d)]\<rparr>)"

text \<open>
  Modelled from the spec: \<^verbatim>\<open>tick\<close> of \<^verbatim>\<open>../lib\<close> is not among the source files. The spec
  describes it as a deferred task queue, first in first out, each task run to completion
  after the current synchronous event handling has returned, with no cancellation.
\<close>

definition tick :: "'e Task \<Rightarrow> ('s, 'e, 'n) Component \<Rightarrow> ('s, 'e, 'n) Component" where
  "tick t c = c\<lparr>queue := queue c @ [t]\<rparr>"

text \<open>
  Modelled from the spec: \<^verbatim>\<open>closePopup\<close> of \<^verbatim>\<open>BaseInput\<close> is not among the source files.
  The spec says that it closes the popup; the state field for that is \<^verbatim>\<open>popupIsClosed\<close>.
\<close>

definition closePopup :: "('a BaseInputState_scheme, 'e, 'n) Component
    \<Rightarrow> ('a BaseInputState_scheme, 'e, 'n) Component" where
  "closePopup c = c\<lparr>state := (state c)\<lparr>popupIsClosed := True\<rparr>\<rparr>"

text \<open>
  Modelled from the spec: \<^verbatim>\<open>onModeSwitch\<close> of \<^verbatim>\<open>BaseInput\<close> is not among the source files.
  It is the callback of the two mode switches; the spec places rendering and focus
  handling outside the value lifecycle, so it leaves the component as it is.
\<close>

definition onModeSwitch :: "('s, 'e, 'n) Component \<Rightarrow> ('s, 'e, 'n) Component" where
  "onModeSwitch c = c"

text \<open>
  JavaScript's \<^verbatim>\<open>a || b\<close> for an optional string \<open>a\<close>: \<^verbatim>\<open>undefined\<close> and the empty string
  are falsy, so \<open>b\<close> is the result for both; any other string is the result itself.
\<close>

fun orElse :: "string option \<Rightarrow> string \<Rightarrow> string" where
  "orElse None b = b"
| "orElse (Some a) b = (if a = [] then b else a)"

text \<open>A template literal prints a missing table entry as the word \<^verbatim>\<open>undefined\<close>.\<close>

fun interpolate :: "string option \<Rightarrow> string" where
  "interpolate None = ''undefined''"
| "interpolate (Some s) = s"

section \<open>DateTimeInput\<close>

text \<open>
  \<^verbatim>\<open>getDateTimeFormat\<close> (lines 254-263): \<^verbatim>\<open>dateTimeFormat || T\<close>, where \<open>T\<close> is the template
  literal of \<^verbatim>\<open>dateFormat\<close>, \<^verbatim>\<open>divider\<close> and \<^verbatim>\<open>TIME_FORMAT[timeFormat]\<close>, in that order.
\<close>

definition getDateTimeFormat :: "'m Env \<Rightarrow> ('h, 'z) DateTimeInputProps_scheme \<Rightarrow> string" where
  "getDateTimeFormat E p =
     orElse (dateTimeFormat p)
       (dateFormat p @ divider p @ interpolate (TIME_FORMAT E (timeFormat p)))"

text \<open>The constructor (lines 154-166): the initial state.\<close>

definition initialState :: "'m Env \<Rightarrow> ('h, 'z) DateTimeInputProps_scheme \<Rightarrow> DateTimeInputState" where
  "initialState E p =
     (let parsedValue = parseValue E (value p) (getDateTimeFormat E p) (localization p) in
      \<lparr>popupIsClosed = True,
       mode = modeOfStart (startMode p),
       year = map_option (getYear E) parsedValue,
       month = map_option (getMonth E) parsedValue,
       date = map_option (getDate E) parsedValue,
       hour = map_option (getHour E) parsedValue,
       minute = map_option (getMinute E) parsedValue\<rparr>)"

definition mount :: "'m Env \<Rightarrow> ('h, 'z) DateTimeInputProps_scheme \<Rightarrow> ('h, 'e, 'z) DateTimeInput" where
  "mount E p = \<lparr>state = initialState E p, queue = [], notifications = []\<rparr>"

text \<open>
  \<^verbatim>\<open>componentDidUpdate\<close> (lines 168-182). \<open>p\<close> is \<^verbatim>\<open>this.props\<close>. A date object is always
  truthy, so \<^verbatim>\<open>if (parsed)\<close> asks whether \<^verbatim>\<open>parseValue\<close> returned one.
\<close>

definition componentDidUpdate :: "'m Env \<Rightarrow> ('h, 'z) DateTimeInputProps_scheme
    \<Rightarrow> ('h, 'z) DateTimeInputProps_scheme \<Rightarrow> ('h, 'e, 'z) DateTimeInput \<Rightarrow> ('h, 'e, 'z) DateTimeInput" where
  "componentDidUpdate E prevProps p c =
     (if value prevProps \<noteq> value p then
        (case parseValue E (value p) (getDateTimeFormat E p) (localization p) of
           Some parsed \<Rightarrow>
             c\<lparr>state := (state c)\<lparr>
               year := Some (getYear E parsed),
               month := Some (getMonth E parsed),
               date := Some (getDate E parsed),
               hour := Some (getHour E parsed),
               minute := Some (getMinute E parsed)\<rparr>\<rparr>
         | None \<Rightarrow> c)
      else c)"

text \<open>
  The mode switches (lines 403-421). \<^verbatim>\<open>setState(updater, callback)\<close> applies the updater
  to the state and then runs the callback.
\<close>

definition switchToNextModeUndelayed :: "('h, 'e, 'z) DateTimeInput \<Rightarrow> ('h, 'e, 'z) DateTimeInput" where
  "switchToNextModeUndelayed c =
     onModeSwitch (c\<lparr>state := (state c)\<lparr>mode := getNextMode (mode (state c))\<rparr>\<rparr>)"

definition switchToNextMode :: "('h, 'e, 'z) DateTimeInput \<Rightarrow> ('h, 'e, 'z) DateTimeInput" where
  "switchToNextMode c = tick SwitchToNextModeUndelayed c"

definition switchToPrevModeUndelayed :: "('h, 'e, 'z) DateTimeInput \<Rightarrow> ('h, 'e, 'z) DateTimeInput" where
  "switchToPrevModeUndelayed c =
     onModeSwitch (c\<lparr>state := (state c)\<lparr>mode := getPrevMode (mode (state c))\<rparr>\<rparr>)"

definition switchToPrevMode :: "('h, 'e, 'z) DateTimeInput \<Rightarrow> ('h, 'e, 'z) DateTimeInput" where
  "switchToPrevMode c = tick SwitchToPrevModeUndelayed c"

text \<open>\<^verbatim>\<open>handleSelect\<close> (lines 423-426).\<close>

definition handleSelect :: "'e \<Rightarrow> BasePickerValue \<Rightarrow> ('h, 'e, 'z) DateTimeInput \<Rightarrow> ('h, 'e, 'z) DateTimeInput" where
  "handleSelect e v c = tick (HandleSelectUndelayed e v) c"

text \<open>\<^verbatim>\<open>onFocus\<close> (lines 428-432).\<close>

definition onFocus :: "('h, 'z) DateTimeInputProps_scheme \<Rightarrow> ('h, 'e, 'z) DateTimeInput \<Rightarrow> ('h, 'e, 'z) DateTimeInput" where
  "onFocus p c =
     (if \<not> preserveViewMode p then c\<lparr>state := (state c)\<lparr>mode := modeOfStart (startMode p)\<rparr>\<rparr>
      else c)"

text \<open>
  \<^verbatim>\<open>handleSelectUndelayed\<close> (lines 434-456), statement by statement: the popup is closed
  first when the input is closable and the mode is \<^verbatim>\<open>minute\<close>; the updater calls
  \<^verbatim>\<open>onChange\<close> when the mode of the previous state is \<^verbatim>\<open>minute\<close> and returns the five date
  fields of the picker's value; the callback switches to the next mode unless the mode is
  \<^verbatim>\<open>minute\<close>.
\<close>

definition handleSelectUndelayed :: "'m Env \<Rightarrow> ('h, 'z) DateTimeInputProps_scheme \<Rightarrow> 'e
    \<Rightarrow> BasePickerValue \<Rightarrow> ('h, 'e, 'z) DateTimeInput \<Rightarrow> ('h, 'e, 'z) DateTimeInput" where
  "handleSelectUndelayed E p e v c =
     (let c1 = (if closable p \<and> mode (state c) = Minute then closePopup c else c);
          prevState = state c1;
          c2 = (if mode prevState = Minute then
                  (let outValue = format E (momentObject E v) (getDateTimeFormat E p)
                   in invoke p e (p\<lparr>value := Some outValue\<rparr>) c1)
                else c1);
          c3 = c2\<lparr>state := prevState\<lparr>
                 year := BasePickerValue.year v,
                 month := BasePickerValue.month v,
                 date := BasePickerValue.date v,
                 hour := BasePickerValue.hour v,
                 minute := BasePickerValue.minute v\<rparr>\<rparr>
      in if mode (state c3) \<noteq> Minute then switchToNextMode c3 else c3)"

text \<open>\<^verbatim>\<open>onInputValueChange\<close> (lines 459-471): the text field was edited to \<open>v\<close>.\<close>

definition onInputValueChange :: "'m Env \<Rightarrow> ('h, 'z) DateTimeInputProps_scheme \<Rightarrow> 'e \<Rightarrow> string
    \<Rightarrow> ('h, 'e, 'z) DateTimeInput \<Rightarrow> ('h, 'e, 'z) DateTimeInput" where
  "onInputValueChange E p e v c =
     (let parsedValue = momentParse E v (getDateTimeFormat E p);
          c1 = (if isValid E parsedValue then
                  c\<lparr>state := (state c)\<lparr>
                    year := Some (getYear E parsedValue),
                    month := Some (getMonth E parsedValue),
                    date := Some (getDate E parsedValue),
                    hour := Some (getHour E parsedValue),
                    minute := Some (getMinute E parsedValue)\<rparr>\<rparr>
                else c)
      in invoke p e (p\<lparr>value := Some v\<rparr>) c1)"

text \<open>
  The scheduler: one tick takes the oldest scheduled task and runs it to completion;
  \<open>runTicks n\<close> runs up to \<open>n\<close> ticks.
\<close>

fun runTask :: "'m Env \<Rightarrow> ('h, 'z) DateTimeInputProps_scheme \<Rightarrow> 'e Task
    \<Rightarrow> ('h, 'e, 'z) DateTimeInput \<Rightarrow> ('h, 'e, 'z) DateTimeInput" where
  "runTask E p SwitchToNextModeUndelayed c = switchToNextModeUndelayed c"
| "runTask E p SwitchToPrevModeUndelayed c = switchToPrevModeUndelayed c"
| "runTask E p (HandleSelectUndelayed e v) c = handleSelectUndelayed E p e v c"

definition runTick :: "'m Env \<Rightarrow> ('h, 'z) DateTimeInputProps_scheme
    \<Rightarrow> ('h, 'e, 'z) DateTimeInput \<Rightarrow> ('h, 'e, 'z) DateTimeInput" where
  "runTick E p c =
     (case queue c of
        [] \<Rightarrow> c
      | t # ts \<Rightarrow> runTask E p t (c\<lparr>queue := ts\<rparr>))"

fun runTicks :: "nat \<Rightarrow> 'm Env \<Rightarrow> ('h, 'z) DateTimeInputProps_scheme
    \<Rightarrow> ('h, 'e, 'z) DateTimeInput \<Rightarrow> ('h, 'e, 'z) DateTimeInput" where
  "runTicks 0 E p c = c"
| "runTicks (Suc n) E p c = runTicks n E p (runTick E p c)"

section \<open>MonthInput\<close>

text \<open>
  \<^verbatim>\<open>MonthInput.handleSelect\<close> (MonthInput.tsx, lines 150-165). The date object is built
  from the month alone, \<^verbatim>\<open>moment({ month: value.month })\<close>, and gets the locale only when
  \<^verbatim>\<open>localization\<close> is neither \<^verbatim>\<open>undefined\<close> nor the empty string.
\<close>

definition monthOnly :: "BasePickerValue \<Rightarrow> BasePickerValue" where
  "monthOnly v =
     \<lparr>BasePickerValue.year = None, month = BasePickerValue.month v, date = None,
      hour = None, minute = None\<rparr>"

definition MonthInput_handleSelect :: "'m Env \<Rightarrow> ('h, 'z) InputProps_scheme \<Rightarrow> 'e
    \<Rightarrow> BasePickerValue \<Rightarrow> ('h, 'e, 'z) MonthInput \<Rightarrow> ('h, 'e, 'z) MonthInput" where
  "MonthInput_handleSelect E p e v c =
     (let d = (case localization p of
                 None \<Rightarrow> momentObject E (monthOnly v)
               | Some l \<Rightarrow>
                   if l = [] then momentObject E (monthOnly v)
                   else withLocale E (momentObject E (monthOnly v)) l);
          output = (if isValid E d then format E d (dateFormat p) else []);
          c1 = invoke p e (p\<lparr>value := Some output\<rparr>) c
      in if closable p then closePopup c1 else c1)"

section \<open>Scenario drivers and example data\<close>

text \<open>
  One confirmed selection as the host sees it: the picker calls \<^verbatim>\<open>handleSelect\<close>, the
  handler returns, and the scheduler then runs two ticks: the selection itself, and the
  mode switch that the selection may have scheduled.
\<close>

definition confirmSelection :: "'m Env \<Rightarrow> ('h, 'z) DateTimeInputProps_scheme \<Rightarrow> 'e
    \<Rightarrow> BasePickerValue \<Rightarrow> ('h, 'e, 'z) DateTimeInput \<Rightarrow> ('h, 'e, 'z) DateTimeInput" where
  "confirmSelection E p e v c = runTicks 2 E p (handleSelect e v c)"

text \<open>
  The calls to \<^verbatim>\<open>onChange\<close> that were made between an earlier component \<open>c\<close> and a
  later one \<open>c'\<close>.
\<close>

definition newNotifications :: "('s, 'e, 'n) Component \<Rightarrow> ('s, 'e, 'n) Component \<Rightarrow> 'n list" where
  "newNotifications c c' = drop (length (notifications c)) (notifications c')"

text \<open>
  Example data, to run the model on concrete inputs. The environment is a finite table:
  it knows the one date of the spec's Scenario 1 in the default format, and the short
  name of March. Nothing about the date library is concluded from it; the theorems hold
  for every environment.
\<close>

datatype ExampleMoment = InvalidDate | At int int int int int

fun exampleParse :: "string \<Rightarrow> string \<Rightarrow> ExampleMoment" where
  "exampleParse s f =
     (if s = ''05-03-2024 14:30'' \<and> f = ''DD-MM-YYYY HH:mm'' then At 2024 2 5 14 30
      else InvalidDate)"

fun exampleObject :: "BasePickerValue \<Rightarrow> ExampleMoment" where
  "exampleObject v =
     At (case_option 2024 id (BasePickerValue.year v))
        (case_option 0 id (BasePickerValue.month v))
        (case_option 1 id (BasePickerValue.date v))
        (case_option 0 id (BasePickerValue.hour v))
        (case_option 0 id (BasePickerValue.minute v))"

fun exampleFormat :: "ExampleMoment \<Rightarrow> string \<Rightarrow> string" where
  "exampleFormat InvalidDate f = ''Invalid date''"
| "exampleFormat (At y mo d h mi) f =
     (if f = ''DD-MM-YYYY HH:mm'' \<and> y = 2024 \<and> mo = 2 \<and> d = 5 \<and> h = 14 \<and> mi = 30
      then ''05-03-2024 14:30''
      else if f = ''MMM'' \<and> mo = 2 then ''Mar''
      else ''Invalid date'')"

fun exampleValid :: "ExampleMoment \<Rightarrow> bool" where
  "exampleValid InvalidDate = False"
| "exampleValid (At y mo d h mi) = True"

fun exampleYear :: "ExampleMoment \<Rightarrow> int" where
  "exampleYear InvalidDate = 0"
| "exampleYear (At y mo d h mi) = y"

fun exampleMonth :: "ExampleMoment \<Rightarrow> int" where
  "exampleMonth InvalidDate = 0"
| "exampleMonth (At y mo d h mi) = mo"

fun exampleDate :: "ExampleMoment \<Rightarrow> int" where
  "exampleDate InvalidDate = 0"
| "exampleDate (At y mo d h mi) = d"

fun exampleHour :: "ExampleMoment \<Rightarrow> int" where
  "exampleHour InvalidDate = 0"
| "exampleHour (At y mo d h mi) = h"

fun exampleMinute :: "ExampleMoment \<Rightarrow> int" where
  "exampleMinute InvalidDate = 0"
| "exampleMinute (At y mo d h mi) = mi"

fun exampleParseValue :: "string option \<Rightarrow> string \<Rightarrow> string option \<Rightarrow> ExampleMoment option" where
  "exampleParseValue None f l = None"
| "exampleParseValue (Some s) f l =
     (if exampleValid (exampleParse s f) then Some (exampleParse s f) else None)"

definition exampleEnv :: "ExampleMoment Env" where
  "exampleEnv =
     \<lparr>TIME_FORMAT = map_of [(''24'', ''HH:mm''), (''12'', ''hh:mm A'')],
      parseValue = exampleParseValue,
      momentParse = exampleParse,
      momentObject = exampleObject,
      isValid = exampleValid,
      withLocale = (\<lambda>m l. m),
      format = exampleFormat,
      getYear = exampleYear,
      getMonth = exampleMonth,
      getDate = exampleDate,
      getHour = exampleHour,
      getMinute = exampleMinute\<rparr>"

text \<open>
  The default props of \<^verbatim>\<open>DateTimeInput\<close> (lines 127-135), with a handler named
  \<open>''handler''\<close> and no value; and those of \<^verbatim>\<open>MonthInput\<close> (MonthInput.tsx, lines 42-46).
\<close>

definition exampleProps :: "(string, unit) DateTimeInputProps_scheme" where
  "exampleProps =
     \<lparr>value = None, dateFormat = ''DD-MM-YYYY'', localization = None, closable = False,
      onChange = Some ''handler'', timeFormat = ''24'', startMode = StartDay,
      divider = '' '', preserveViewMode = True, dateTimeFormat = None\<rparr>"

definition exampleMonthProps :: "(string, unit) InputProps_scheme" where
  "exampleMonthProps =
     \<lparr>value = None, dateFormat = ''MMM'', localization = None, closable = True,
      onChange = Some ''handler''\<rparr>"

definition exampleValue :: BasePickerValue where
  "exampleValue =
     \<lparr>BasePickerValue.year = Some 2024, month = Some 2, date = Some 5, hour = Some 14,
      minute = Some 30\<rparr>"

definition exampleMonthInput :: "(string, string, unit) MonthInput" where
  "exampleMonthInput = \<lparr>state = \<lparr>popupIsClosed = False\<rparr>, queue = [], notifications = []\<rparr>"

definition exampleInput :: "CalendarMode \<Rightarrow> (string, string, unit) DateTimeInput" where
  "exampleInput m =
     \<lparr>state = (initialState exampleEnv exampleProps)\<lparr>mode := m\<rparr>, queue = [],
      notifications = []\<rparr>"

section \<open>Helper facts\<close>

lemma getNextMode_simps:
  "getNextMode Year = Month" "getNextMode Month = Day" "getNextMode Day = Hour"
  "getNextMode Hour = Minute" "getNextMode Minute = Year"
  by (simp_all add: getNextMode_def)

lemma getPrevMode_simps:
  "getPrevMode Minute = Hour" "getPrevMode Hour = Day" "getPrevMode Day = Month"
  "getPrevMode Month = Year" "getPrevMode Year = Minute"
  by (simp_all add: getPrevMode_def)

lemma invoke_frame:
  "state (invoke p e d c) = state c" "queue (invoke p e d c) = queue c"
  by (simp_all add: invoke_def split: option.splits)

lemma invoke_notifications:
  "notifications (invoke p e d c) =
     notifications c @ (case onChange p of None \<Rightarrow> [] | Some h \<Rightarrow> [(h, e, d)])"
  by (simp add: invoke_def split: option.splits)

lemma tick_simps:
  "state (tick t c) = state c" "queue (tick t c) = queue c @ [t]"
  "notifications (tick t c) = notifications c"
  by (simp_all add: tick_def)

lemma closePopup_simps:
  "queue (closePopup c) = queue c" "notifications (closePopup c) = notifications c"
  "state (closePopup c) = (state c)\<lparr>popupIsClosed := True\<rparr>"
  by (simp_all add: closePopup_def)

lemma handleSelectUndelayed_other:
  assumes "mode (state c) \<noteq> Minute"
  shows "handleSelectUndelayed E p e v c =
     c\<lparr>state := (state c)\<lparr>
          year := BasePickerValue.year v, month := BasePickerValue.month v,
          date := BasePickerValue.date v, hour := BasePickerValue.hour v,
          minute := BasePickerValue.minute v\<rparr>,
       queue := queue c @ [SwitchToNextModeUndelayed]\<rparr>"
  using assms by (simp add: handleSelectUndelayed_def switchToNextMode_def tick_def Let_def)

lemma handleSelectUndelayed_minute_state:
  assumes "mode (state c) = Minute"
  shows "state (handleSelectUndelayed E p e v c) =
     (state c)\<lparr>popupIsClosed := (closable p \<or> popupIsClosed (state c)),
          year := BasePickerValue.year v, month := BasePickerValue.month v,
          date := BasePickerValue.date v, hour := BasePickerValue.hour v,
          minute := BasePickerValue.minute v\<rparr>"
    and "queue (handleSelectUndelayed E p e v c) = queue c"
    and "notifications (handleSelectUndelayed E p e v c) =
       notifications c @ (case onChange p of None \<Rightarrow> []
         | Some h \<Rightarrow> [(h, e, p\<lparr>value := Some (format E (momentObject E v) (getDateTimeFormat E p))\<rparr>)])"
  using assms
  by (simp_all add: handleSelectUndelayed_def Let_def invoke_frame invoke_notifications
      closePopup_simps)

lemma runTick_single:
  assumes "queue c = [t]"
  shows "runTick E p c = runTask E p t (c\<lparr>queue := []\<rparr>)"
  using assms by (simp add: runTick_def)

lemma runTick_empty:
  assumes "queue c = []"
  shows "runTick E p c = c"
  using assms by (simp add: runTick_def)

lemma switchToNextModeUndelayed_simps:
  "mode (state (switchToNextModeUndelayed c)) = getNextMode (mode (state c))"
  "queue (switchToNextModeUndelayed c) = queue c"
  "notifications (switchToNextModeUndelayed c) = notifications c"
  by (simp_all add: switchToNextModeUndelayed_def onModeSwitch_def)

lemmas example_defs =
  exampleEnv_def exampleProps_def exampleValue_def exampleInput_def initialState_def
  getDateTimeFormat_def mount_def

lemma Component_queue_same:
  assumes "queue c = q"
  shows "c\<lparr>queue := q\<rparr> = c"
  using assms by simp

lemma switchToPrevModeUndelayed_simps:
  "mode (state (switchToPrevModeUndelayed c)) = getPrevMode (mode (state c))"
  "queue (switchToPrevModeUndelayed c) = queue c"
  "notifications (switchToPrevModeUndelayed c) = notifications c"
  by (simp_all add: switchToPrevModeUndelayed_def onModeSwitch_def)

lemma onInputValueChange_notifications:
  "notifications (onInputValueChange E p e s c) =
     notifications c @ (case onChange p of None \<Rightarrow> [] | Some h \<Rightarrow> [(h, e, p\<lparr>value := Some s\<rparr>)])"
  by (simp add: onInputValueChange_def Let_def invoke_notifications)

lemma MonthInput_handleSelect_notifications:
  "notifications (MonthInput_handleSelect E q e v k) =
     notifications k @
       (case onChange q of
          None \<Rightarrow> []
        | Some h \<Rightarrow>
            [(h, e, q\<lparr>value := Some
               (let m0 = momentObject E \<lparr>BasePickerValue.year = None, month = BasePickerValue.month v,
                           date = None, hour = None, minute = None\<rparr>;
                    m = (case localization q of
                           None \<Rightarrow> m0
                         | Some l \<Rightarrow> if l = [] then m0 else withLocale E m0 l)
                in if isValid E m then format E m (dateFormat q) else [])\<rparr>)])"
  unfolding MonthInput_handleSelect_def monthOnly_def Let_def
  by (cases "onChange q") (simp_all add: invoke_notifications closePopup_simps)

lemma handleSelectUndelayed_notifications:
  "notifications (handleSelectUndelayed E p e v c) =
     notifications c @
       (if mode (state c) = Minute then
          (case onChange p of None \<Rightarrow> []
           | Some h \<Rightarrow> [(h, e, p\<lparr>value := Some (format E (momentObject E v) (getDateTimeFormat E p))\<rparr>)])
        else [])"
proof (cases "mode (state c) = Minute")
  case True
  then show ?thesis by (simp add: handleSelectUndelayed_minute_state)
next
  case False
  then show ?thesis by (simp add: handleSelectUndelayed_other)
qed

lemma confirmSelection_other:
  assumes "mode (state c) \<noteq> Minute" and "queue c = []"
  shows "mode (state (confirmSelection E p e v c)) = getNextMode (mode (state c))"
    and "queue (confirmSelection E p e v c) = []"
    and "notifications (confirmSelection E p e v c) = notifications c"
  using assms
  by (simp_all add: confirmSelection_def handleSelect_def tick_def runTick_def eval_nat_numeral
      handleSelectUndelayed_other switchToNextModeUndelayed_simps)

lemma confirmSelection_minute:
  assumes "mode (state c) = Minute" and "queue c = []"
  shows "mode (state (confirmSelection E p e v c)) = Minute"
    and "queue (confirmSelection E p e v c) = []"
    and "notifications (confirmSelection E p e v c) =
       notifications c @ (case onChange p of None \<Rightarrow> []
         | Some h \<Rightarrow> [(h, e, p\<lparr>value := Some (format E (momentObject E v) (getDateTimeFormat E p))\<rparr>)])"
  using assms
  by (simp_all add: confirmSelection_def handleSelect_def tick_def runTick_def eval_nat_numeral
      handleSelectUndelayed_minute_state)

section \<open>The mode cycle\<close>

text \<open>
  Claim C3. The forward map is the five-cycle year, month, day, hour, minute, year; the
  backward map is its inverse, on both sides; and five applications of \<^verbatim>\<open>getNextMode\<close>, or
  of \<^verbatim>\<open>getPrevMode\<close>, lead from every mode back to itself.
\<close>

theorem mode_cycle:
  "getNextMode Year = Month \<and> getNextMode Month = Day \<and> getNextMode Day = Hour
   \<and> getNextMode Hour = Minute \<and> getNextMode Minute = Year
   \<and> getPrevMode (getNextMode m) = m \<and> getNextMode (getPrevMode m) = m
   \<and> (getNextMode ^^ 5) m = m \<and> (getPrevMode ^^ 5) m = m"
  by (cases m) (simp_all add: getNextMode_simps getPrevMode_simps eval_nat_numeral)

text \<open>The cycle, run from \<^verbatim>\<open>day\<close>.\<close>

theorem mode_cycle_witness:
  "(getNextMode ^^ 5) Day = Day \<and> (getPrevMode ^^ 5) Day = Day
   \<and> getPrevMode (getNextMode Minute) = Minute"
  using mode_cycle [of Day] mode_cycle [of Minute] by (simp add: getNextMode_simps getPrevMode_simps)

section \<open>The effective format\<close>




section \<open>Selection\<close>

text \<open>
  Claim C1. When \<^verbatim>\<open>handleSelectUndelayed\<close> handles a selection in a mode other than
  \<^verbatim>\<open>minute\<close>, the five date fields are stored, \<^verbatim>\<open>onChange\<close> is not called, and the switch
  to the next mode is scheduled; when that tick runs, the mode is the next mode of the
  forward cycle, still without a call to \<^verbatim>\<open>onChange\<close>. In mode \<^verbatim>\<open>minute\<close> the mode stays,
  nothing is scheduled, and \<^verbatim>\<open>onChange\<close> (when the caller gave one) is called once, with the
  selection formatted under the effective format.
\<close>

theorem handleSelectUndelayed_advance_or_commit:
  "(mode (state c) \<noteq> Minute \<longrightarrow>
      (let c' = handleSelectUndelayed E p e v c in
         year (state c') = BasePickerValue.year v
         \<and> month (state c') = BasePickerValue.month v
         \<and> date (state c') = BasePickerValue.date v
         \<and> hour (state c') = BasePickerValue.hour v
         \<and> minute (state c') = BasePickerValue.minute v
         \<and> notifications c' = notifications c
         \<and> queue c' = queue c @ [SwitchToNextModeUndelayed]
         \<and> (queue c = [] \<longrightarrow>
               mode (state (runTick E p c')) = getNextMode (mode (state c))
               \<and> notifications (runTick E p c') = notifications c
               \<and> queue (runTick E p c') = [])))
   \<and> (mode (state c) = Minute \<longrightarrow>
      (let c' = handleSelectUndelayed E p e v c;
           outValue = format E (momentObject E v) (getDateTimeFormat E p) in
         mode (state c') = Minute
         \<and> queue c' = queue c
         \<and> year (state c') = BasePickerValue.year v
         \<and> month (state c') = BasePickerValue.month v
         \<and> date (state c') = BasePickerValue.date v
         \<and> hour (state c') = BasePickerValue.hour v
         \<and> minute (state c') = BasePickerValue.minute v
         \<and> (onChange p = Some h \<longrightarrow>
               notifications c' = notifications c @ [(h, e, p\<lparr>value := Some outValue\<rparr>)])
         \<and> (onChange p = None \<longrightarrow> notifications c' = notifications c)))"
proof (cases "mode (state c) = Minute")
  case True
  show ?thesis
    using True
    by (simp add: Let_def handleSelectUndelayed_minute_state [OF True])
next
  case False
  have run: "queue c = [] \<Longrightarrow>
      runTick E p (handleSelectUndelayed E p e v c) =
        switchToNextModeUndelayed ((handleSelectUndelayed E p e v c)\<lparr>queue := []\<rparr>)"
    by (simp add: runTick_def handleSelectUndelayed_other [OF False])
  show ?thesis
    using False run
    by (simp add: Let_def switchToNextModeUndelayed_simps)
      (simp add: handleSelectUndelayed_other [OF False])
qed

text \<open>A selection in mode \<^verbatim>\<open>day\<close>, and one in mode \<^verbatim>\<open>minute\<close>, under the default props.\<close>

theorem handleSelectUndelayed_advance_or_commit_witness:
  "mode (state (exampleInput Day)) \<noteq> Minute
   \<and> queue (handleSelectUndelayed exampleEnv exampleProps ''click'' exampleValue (exampleInput Day))
       = [SwitchToNextModeUndelayed]
   \<and> notifications (handleSelectUndelayed exampleEnv exampleProps ''click'' exampleValue (exampleInput Day))
       = []
   \<and> mode (state (runTick exampleEnv exampleProps
         (handleSelectUndelayed exampleEnv exampleProps ''click'' exampleValue (exampleInput Day))))
       = Hour
   \<and> mode (state (exampleInput Minute)) = Minute
   \<and> onChange exampleProps = Some ''handler''
   \<and> mode (state (handleSelectUndelayed exampleEnv exampleProps ''click'' exampleValue (exampleInput Minute)))
       = Minute
   \<and> notifications (handleSelectUndelayed exampleEnv exampleProps ''click'' exampleValue (exampleInput Minute))
       = [(''handler'', ''click'', exampleProps\<lparr>value := Some ''05-03-2024 14:30''\<rparr>)]"
  using handleSelectUndelayed_advance_or_commit
      [of "exampleInput Day" exampleEnv exampleProps "''click''" exampleValue "''handler''"]
    handleSelectUndelayed_advance_or_commit
      [of "exampleInput Minute" exampleEnv exampleProps "''click''" exampleValue "''handler''"]
  by (simp add: Let_def example_defs getNextMode_simps)

section \<open>Focus\<close>

text \<open>
  Claim C7. On focus with \<^verbatim>\<open>preserveViewMode\<close> false, the mode is reset to the configured
  \<^verbatim>\<open>startMode\<close>: to \<^verbatim>\<open>year\<close> for \<^verbatim>\<open>'year'\<close>, to \<^verbatim>\<open>month\<close> for \<^verbatim>\<open>'month'\<close> and to \<^verbatim>\<open>day\<close>
  for \<^verbatim>\<open>'day'\<close>. With \<^verbatim>\<open>preserveViewMode\<close> true the component is left as it is. In both
  cases nothing but the mode changes.
\<close>

theorem onFocus_mode:
  "(\<not> preserveViewMode p \<and> startMode p = StartYear \<longrightarrow> mode (state (onFocus p c)) = Year)
   \<and> (\<not> preserveViewMode p \<and> startMode p = StartMonth \<longrightarrow> mode (state (onFocus p c)) = Month)
   \<and> (\<not> preserveViewMode p \<and> startMode p = StartDay \<longrightarrow> mode (state (onFocus p c)) = Day)
   \<and> (\<not> preserveViewMode p \<longrightarrow> mode (state (onFocus p c)) = modeOfStart (startMode p))
   \<and> (preserveViewMode p \<longrightarrow> onFocus p c = c)
   \<and> (state (onFocus p c))\<lparr>mode := mode (state c)\<rparr> = state c
   \<and> queue (onFocus p c) = queue c
   \<and> notifications (onFocus p c) = notifications c"
  by (simp add: onFocus_def)

text \<open>
  Scenario 5 of the spec: \<^verbatim>\<open>preserveViewMode\<close> false, \<^verbatim>\<open>startMode\<close> \<^verbatim>\<open>day\<close>, prior mode
  \<^verbatim>\<open>minute\<close>; the same with \<^verbatim>\<open>startMode\<close> \<^verbatim>\<open>year\<close> and \<^verbatim>\<open>month\<close>; and the same focus with
  \<^verbatim>\<open>preserveViewMode\<close> true.
\<close>

theorem onFocus_mode_witness:
  "\<not> preserveViewMode (exampleProps\<lparr>preserveViewMode := False\<rparr>)
   \<and> startMode (exampleProps\<lparr>preserveViewMode := False\<rparr>) = StartDay
   \<and> mode (state (exampleInput Minute)) = Minute
   \<and> mode (state (onFocus (exampleProps\<lparr>preserveViewMode := False\<rparr>) (exampleInput Minute))) = Day
   \<and> mode (state (onFocus (exampleProps\<lparr>preserveViewMode := False, startMode := StartYear\<rparr>)
         (exampleInput Minute))) = Year
   \<and> mode (state (onFocus (exampleProps\<lparr>preserveViewMode := False, startMode := StartMonth\<rparr>)
         (exampleInput Minute))) = Month
   \<and> preserveViewMode exampleProps
   \<and> mode (state (onFocus exampleProps (exampleInput Minute))) = Minute"
  using onFocus_mode [of "exampleProps\<lparr>preserveViewMode := False\<rparr>" "exampleInput Minute"]
    onFocus_mode [of "exampleProps\<lparr>preserveViewMode := False, startMode := StartYear\<rparr>"
      "exampleInput Minute"]
    onFocus_mode [of "exampleProps\<lparr>preserveViewMode := False, startMode := StartMonth\<rparr>"
      "exampleInput Minute"]
    onFocus_mode [of exampleProps "exampleInput Minute"]
  by (simp add: example_defs)

section \<open>A new value prop\<close>

text \<open>
  Claim C10. When the raw value of the props does not parse under the effective format,
  \<^verbatim>\<open>componentDidUpdate\<close> leaves the component, and so each of the stored fields
  \<^verbatim>\<open>year\<close>, \<^verbatim>\<open>month\<close>, \<^verbatim>\<open>date\<close>, \<^verbatim>\<open>hour\<close> and \<^verbatim>\<open>minute\<close>, as it was.
\<close>

theorem componentDidUpdate_parse_failure:
  assumes "parseValue E (value p) (getDateTimeFormat E p) (localization p) = None"
  shows "componentDidUpdate E prevProps p c = c"
  using assms by (simp add: componentDidUpdate_def)

text \<open>
  The value changes from the date of Scenario 1 to a string that does not parse: the
  selection held before is kept.
\<close>

theorem componentDidUpdate_parse_failure_witness:
  "value (exampleProps\<lparr>value := Some ''05-03-2024 14:30''\<rparr>) \<noteq> value (exampleProps\<lparr>value := Some ''05-03''\<rparr>)
   \<and> parseValue exampleEnv (value (exampleProps\<lparr>value := Some ''05-03''\<rparr>))
        (getDateTimeFormat exampleEnv (exampleProps\<lparr>value := Some ''05-03''\<rparr>))
        (localization (exampleProps\<lparr>value := Some ''05-03''\<rparr>)) = None
   \<and> state (componentDidUpdate exampleEnv (exampleProps\<lparr>value := Some ''05-03-2024 14:30''\<rparr>)
        (exampleProps\<lparr>value := Some ''05-03''\<rparr>)
        (mount exampleEnv (exampleProps\<lparr>value := Some ''05-03-2024 14:30''\<rparr>)
          :: (string, string, unit) DateTimeInput))
      = \<lparr>popupIsClosed = True, mode = Day, year = Some 2024, month = Some 2, date = Some 5,
         hour = Some 14, minute = Some 30\<rparr>"
proof -
  have h: "parseValue exampleEnv (value (exampleProps\<lparr>value := Some ''05-03''\<rparr>))
        (getDateTimeFormat exampleEnv (exampleProps\<lparr>value := Some ''05-03''\<rparr>))
        (localization (exampleProps\<lparr>value := Some ''05-03''\<rparr>)) = None"
    by (simp add: example_defs)
  show ?thesis
    using h componentDidUpdate_parse_failure [OF h,
        of "exampleProps\<lparr>value := Some ''05-03-2024 14:30''\<rparr>"
           "mount exampleEnv (exampleProps\<lparr>value := Some ''05-03-2024 14:30''\<rparr>)
             :: (string, string, unit) DateTimeInput"]
    by (simp add: example_defs)
qed

text \<open>
  Claim C2, as amended. Starting in mode \<^verbatim>\<open>day\<close> with nothing scheduled, the first
  confirmed selection moves the mode to \<^verbatim>\<open>hour\<close> and the second to \<^verbatim>\<open>minute\<close>, neither
  calling \<^verbatim>\<open>onChange\<close>; the third, confirmed in mode \<^verbatim>\<open>minute\<close>, calls \<^verbatim>\<open>onChange\<close> (when
  the caller gave one) with the formatted selection and leaves the mode at \<^verbatim>\<open>minute\<close>.
\<close>

theorem confirm_from_day:
  assumes "mode (state c0) = Day" and "queue c0 = []"
  shows "let c1 = confirmSelection E p e1 v1 c0;
             c2 = confirmSelection E p e2 v2 c1;
             c3 = confirmSelection E p e3 v3 c2
         in mode (state c1) = Hour \<and> notifications c1 = notifications c0
            \<and> mode (state c2) = Minute \<and> notifications c2 = notifications c0
            \<and> mode (state c3) = Minute \<and> queue c3 = []
            \<and> notifications c3 = notifications c0 @
                 (case onChange p of None \<Rightarrow> []
                  | Some h \<Rightarrow>
                      [(h, e3, p\<lparr>value := Some (format E (momentObject E v3) (getDateTimeFormat E p))\<rparr>)])"
proof -
  have m1: "mode (state (confirmSelection E p e1 v1 c0)) = Hour"
    and q1: "queue (confirmSelection E p e1 v1 c0) = []"
    and n1: "notifications (confirmSelection E p e1 v1 c0) = notifications c0"
    using assms by (simp_all add: confirmSelection_other getNextMode_simps)
  have m2: "mode (state (confirmSelection E p e2 v2 (confirmSelection E p e1 v1 c0))) = Minute"
    and q2: "queue (confirmSelection E p e2 v2 (confirmSelection E p e1 v1 c0)) = []"
    and n2: "notifications (confirmSelection E p e2 v2 (confirmSelection E p e1 v1 c0))
               = notifications c0"
    using m1 q1 n1 by (simp_all add: confirmSelection_other getNextMode_simps)
  show ?thesis
    using m1 n1 m2 q2 n2 by (simp add: Let_def confirmSelection_minute)
qed

text \<open>Three confirmed selections under the default props.\<close>

theorem confirm_from_day_witness:
  "mode (state (exampleInput Day)) = Day \<and> queue (exampleInput Day) = []
   \<and> mode (state (confirmSelection exampleEnv exampleProps ''first'' exampleValue (exampleInput Day)))
       = Hour
   \<and> mode (state (confirmSelection exampleEnv exampleProps ''second'' exampleValue
        (confirmSelection exampleEnv exampleProps ''first'' exampleValue (exampleInput Day))))
       = Minute
   \<and> mode (state (confirmSelection exampleEnv exampleProps ''third'' exampleValue
        (confirmSelection exampleEnv exampleProps ''second'' exampleValue
          (confirmSelection exampleEnv exampleProps ''first'' exampleValue (exampleInput Day)))))
       = Minute
   \<and> notifications (confirmSelection exampleEnv exampleProps ''third'' exampleValue
        (confirmSelection exampleEnv exampleProps ''second'' exampleValue
          (confirmSelection exampleEnv exampleProps ''first'' exampleValue (exampleInput Day))))
       = [(''handler'', ''third'', exampleProps\<lparr>value := Some ''05-03-2024 14:30''\<rparr>)]"
proof -
  have h1: "mode (state (exampleInput Day)) = Day" and h2: "queue (exampleInput Day) = []"
    by (simp_all add: exampleInput_def)
  show ?thesis
    using h1 h2 confirm_from_day [OF h1 h2, of exampleEnv exampleProps "''first''" exampleValue
        "''second''" exampleValue "''third''" exampleValue]
    by (simp add: Let_def example_defs)
qed

text \<open>
  Claim C2 as written fails at its last step: a freshly mounted input with the default
  props starts in mode \<^verbatim>\<open>day\<close>, and after the third confirmed selection its mode is
  \<^verbatim>\<open>minute\<close>, not \<^verbatim>\<open>year\<close>.
\<close>

theorem confirm_minute_counterexample:
  "mode (state (mount exampleEnv exampleProps :: (string, string, unit) DateTimeInput)) = Day
   \<and> mode (state (confirmSelection exampleEnv exampleProps ''third'' exampleValue
        (confirmSelection exampleEnv exampleProps ''second'' exampleValue
          (confirmSelection exampleEnv exampleProps ''first'' exampleValue
            (mount exampleEnv exampleProps))))) = Minute
   \<and> mode (state (confirmSelection exampleEnv exampleProps ''third'' exampleValue
        (confirmSelection exampleEnv exampleProps ''second'' exampleValue
          (confirmSelection exampleEnv exampleProps ''first'' exampleValue
            (mount exampleEnv exampleProps))))) \<noteq> Year"
proof -
  have m0: "mode (state (mount exampleEnv exampleProps :: (string, string, unit) DateTimeInput)) = Day"
    and q0: "queue (mount exampleEnv exampleProps :: (string, string, unit) DateTimeInput) = []"
    by (simp_all add: mount_def initialState_def exampleProps_def Let_def)
  have m1: "mode (state (confirmSelection exampleEnv exampleProps ''first'' exampleValue
        (mount exampleEnv exampleProps :: (string, string, unit) DateTimeInput))) = Hour"
    and q1: "queue (confirmSelection exampleEnv exampleProps ''first'' exampleValue
        (mount exampleEnv exampleProps :: (string, string, unit) DateTimeInput)) = []"
    using m0 q0 by (simp_all add: confirmSelection_other getNextMode_simps)
  have m2: "mode (state (confirmSelection exampleEnv exampleProps ''second'' exampleValue
        (confirmSelection exampleEnv exampleProps ''first'' exampleValue
        (mount exampleEnv exampleProps :: (string, string, unit) DateTimeInput)))) = Minute"
    and q2: "queue (confirmSelection exampleEnv exampleProps ''second'' exampleValue
        (confirmSelection exampleEnv exampleProps ''first'' exampleValue
        (mount exampleEnv exampleProps :: (string, string, unit) DateTimeInput))) = []"
    using m1 q1 by (simp_all add: confirmSelection_other getNextMode_simps)
  have m3: "mode (state (confirmSelection exampleEnv exampleProps ''third'' exampleValue
        (confirmSelection exampleEnv exampleProps ''second'' exampleValue
        (confirmSelection exampleEnv exampleProps ''first'' exampleValue
        (mount exampleEnv exampleProps :: (string, string, unit) DateTimeInput))))) = Minute"
    using m2 q2 by (simp add: confirmSelection_minute)
  show ?thesis using m0 m3 by simp
qed

section \<open>The data passed to onChange\<close>

text \<open>
  Claim C5. Each call to \<^verbatim>\<open>onChange\<close> made by the commit in mode \<^verbatim>\<open>minute\<close>, by a text
  edit, and by the month selection of \<^verbatim>\<open>MonthInput\<close> passes the props with the \<^verbatim>\<open>value\<close>
  field replaced, and nothing else changed: putting the old \<^verbatim>\<open>value\<close> back gives the props
  again, whatever other fields they hold. The new value is, for the commit, the selection
  formatted under the effective format; for the text edit, the edited text; for the month
  selection, the date object built from the selected month alone (with the locale, when
  \<^verbatim>\<open>localization\<close> is given) formatted under \<^verbatim>\<open>dateFormat\<close>, or the empty string when that
  date object is not valid. With a handler in the props, each of the three makes exactly
  this one call, to that handler and with the event of the interaction; the commit makes
  it in mode \<^verbatim>\<open>minute\<close> only.
\<close>

theorem onChange_data_is_props_with_value:
  "(\<forall>(h, e', d) \<in> set (newNotifications c (handleSelectUndelayed E p e v c)).
       onChange p = Some h \<and> e' = e \<and> mode (state c) = Minute
       \<and> d = p\<lparr>value := Some (format E (momentObject E v) (getDateTimeFormat E p))\<rparr>
       \<and> d\<lparr>value := value p\<rparr> = p)
   \<and> notifications (handleSelectUndelayed E p e v c)
       = notifications c @ newNotifications c (handleSelectUndelayed E p e v c)
   \<and> (\<forall>(h, e', d) \<in> set (newNotifications c (onInputValueChange E p e s c)).
       onChange p = Some h \<and> e' = e \<and> d = p\<lparr>value := Some s\<rparr> \<and> d\<lparr>value := value p\<rparr> = p)
   \<and> notifications (onInputValueChange E p e s c)
       = notifications c @ newNotifications c (onInputValueChange E p e s c)
   \<and> (\<forall>(h, e', d) \<in> set (newNotifications k (MonthInput_handleSelect E q e v k)).
       onChange q = Some h \<and> e' = e
       \<and> d = q\<lparr>value := Some
             (let m0 = momentObject E \<lparr>BasePickerValue.year = None, month = BasePickerValue.month v,
                         date = None, hour = None, minute = None\<rparr>;
                  m = (case localization q of
                         None \<Rightarrow> m0
                       | Some l \<Rightarrow> if l = [] then m0 else withLocale E m0 l)
              in if isValid E m then format E m (dateFormat q) else [])\<rparr>
       \<and> d\<lparr>value := value q\<rparr> = q)
   \<and> notifications (MonthInput_handleSelect E q e v k)
       = notifications k @ newNotifications k (MonthInput_handleSelect E q e v k)
   \<and> newNotifications c (handleSelectUndelayed E p e v c)
       = (if mode (state c) = Minute then
            (case onChange p of
               None \<Rightarrow> []
             | Some h \<Rightarrow>
                 [(h, e, p\<lparr>value := Some (format E (momentObject E v) (getDateTimeFormat E p))\<rparr>)])
          else [])
   \<and> newNotifications c (onInputValueChange E p e s c)
       = (case onChange p of None \<Rightarrow> [] | Some h \<Rightarrow> [(h, e, p\<lparr>value := Some s\<rparr>)])
   \<and> newNotifications k (MonthInput_handleSelect E q e v k)
       = (case onChange q of
            None \<Rightarrow> []
          | Some h \<Rightarrow>
              [(h, e, q\<lparr>value := Some
             (let m0 = momentObject E \<lparr>BasePickerValue.year = None, month = BasePickerValue.month v,
                         date = None, hour = None, minute = None\<rparr>;
                  m = (case localization q of
                         None \<Rightarrow> m0
                       | Some l \<Rightarrow> if l = [] then m0 else withLocale E m0 l)
              in if isValid E m then format E m (dateFormat q) else [])\<rparr>)])"
proof -
  have select: "\<forall>(h, e', d) \<in> set (newNotifications c (handleSelectUndelayed E p e v c)).
       onChange p = Some h \<and> e' = e \<and> mode (state c) = Minute
       \<and> d = p\<lparr>value := Some (format E (momentObject E v) (getDateTimeFormat E p))\<rparr>
       \<and> d\<lparr>value := value p\<rparr> = p"
    and selectLog: "notifications (handleSelectUndelayed E p e v c)
       = notifications c @ newNotifications c (handleSelectUndelayed E p e v c)"
    and selectNew: "newNotifications c (handleSelectUndelayed E p e v c)
       = (if mode (state c) = Minute then
            (case onChange p of
               None \<Rightarrow> []
             | Some h \<Rightarrow>
                 [(h, e, p\<lparr>value := Some (format E (momentObject E v) (getDateTimeFormat E p))\<rparr>)])
          else [])"
    unfolding newNotifications_def handleSelectUndelayed_notifications
    by (cases "onChange p"; cases "mode (state c) = Minute"; simp)+
  have edit: "\<forall>(h, e', d) \<in> set (newNotifications c (onInputValueChange E p e s c)).
       onChange p = Some h \<and> e' = e \<and> d = p\<lparr>value := Some s\<rparr> \<and> d\<lparr>value := value p\<rparr> = p"
    and editLog: "notifications (onInputValueChange E p e s c)
       = notifications c @ newNotifications c (onInputValueChange E p e s c)"
    and editNew: "newNotifications c (onInputValueChange E p e s c)
       = (case onChange p of None \<Rightarrow> [] | Some h \<Rightarrow> [(h, e, p\<lparr>value := Some s\<rparr>)])"
    unfolding newNotifications_def onInputValueChange_notifications
    by (cases "onChange p"; simp)+
  have monthSel: "\<forall>(h, e', d) \<in> set (newNotifications k (MonthInput_handleSelect E q e v k)).
       onChange q = Some h \<and> e' = e
       \<and> d = q\<lparr>value := Some
             (let m0 = momentObject E \<lparr>BasePickerValue.year = None, month = BasePickerValue.month v,
                         date = None, hour = None, minute = None\<rparr>;
                  m = (case localization q of
                         None \<Rightarrow> m0
                       | Some l \<Rightarrow> if l = [] then m0 else withLocale E m0 l)
              in if isValid E m then format E m (dateFormat q) else [])\<rparr>
       \<and> d\<lparr>value := value q\<rparr> = q"
    and monthLog: "notifications (MonthInput_handleSelect E q e v k)
       = notifications k @ newNotifications k (MonthInput_handleSelect E q e v k)"
    and monthNew: "newNotifications k (MonthInput_handleSelect E q e v k)
       = (case onChange q of
            None \<Rightarrow> []
          | Some h \<Rightarrow>
              [(h, e, q\<lparr>value := Some
             (let m0 = momentObject E \<lparr>BasePickerValue.year = None, month = BasePickerValue.month v,
                         date = None, hour = None, minute = None\<rparr>;
                  m = (case localization q of
                         None \<Rightarrow> m0
                       | Some l \<Rightarrow> if l = [] then m0 else withLocale E m0 l)
              in if isValid E m then format E m (dateFormat q) else [])\<rparr>)])"
    unfolding newNotifications_def MonthInput_handleSelect_notifications
    by (cases "onChange q"; simp)+
  show ?thesis
    by (intro conjI)
      (fact select, fact selectLog, fact edit, fact editLog, fact monthSel, fact monthLog,
       fact selectNew, fact editNew, fact monthNew)
qed

text \<open>The three calls under the default props of the two inputs.\<close>

theorem onChange_data_is_props_with_value_witness:
  "newNotifications (exampleInput Minute)
      (handleSelectUndelayed exampleEnv exampleProps ''click'' exampleValue (exampleInput Minute))
     = [(''handler'', ''click'', exampleProps\<lparr>value := Some ''05-03-2024 14:30''\<rparr>)]
   \<and> newNotifications (exampleInput Minute)
      (onInputValueChange exampleEnv exampleProps ''click'' ''05-03'' (exampleInput Minute))
     = [(''handler'', ''click'', exampleProps\<lparr>value := Some ''05-03''\<rparr>)]
   \<and> newNotifications exampleMonthInput
      (MonthInput_handleSelect exampleEnv exampleMonthProps ''click'' exampleValue exampleMonthInput)
     = [(''handler'', ''click'', exampleMonthProps\<lparr>value := Some ''Mar''\<rparr>)]
   \<and> (exampleProps\<lparr>value := Some ''05-03-2024 14:30''\<rparr>)\<lparr>value := value exampleProps\<rparr> = exampleProps
   \<and> (exampleProps\<lparr>value := Some ''05-03''\<rparr>)\<lparr>value := value exampleProps\<rparr> = exampleProps
   \<and> (exampleMonthProps\<lparr>value := Some ''Mar''\<rparr>)\<lparr>value := value exampleMonthProps\<rparr> = exampleMonthProps"
proof -
  have n1: "newNotifications (exampleInput Minute)
      (handleSelectUndelayed exampleEnv exampleProps ''click'' exampleValue (exampleInput Minute))
     = [(''handler'', ''click'', exampleProps\<lparr>value := Some ''05-03-2024 14:30''\<rparr>)]"
    by (simp add: newNotifications_def handleSelectUndelayed_notifications example_defs)
  have n2: "newNotifications (exampleInput Minute)
      (onInputValueChange exampleEnv exampleProps ''click'' ''05-03'' (exampleInput Minute))
     = [(''handler'', ''click'', exampleProps\<lparr>value := Some ''05-03''\<rparr>)]"
    by (simp add: newNotifications_def onInputValueChange_notifications example_defs)
  have n3: "newNotifications exampleMonthInput
      (MonthInput_handleSelect exampleEnv exampleMonthProps ''click'' exampleValue exampleMonthInput)
     = [(''handler'', ''click'', exampleMonthProps\<lparr>value := Some ''Mar''\<rparr>)]"
    by (simp add: newNotifications_def MonthInput_handleSelect_def Let_def invoke_notifications
        closePopup_simps monthOnly_def exampleEnv_def exampleMonthProps_def exampleMonthInput_def
        exampleValue_def)
  note all = onChange_data_is_props_with_value
      [of "exampleInput Minute" exampleEnv exampleProps "''click''" exampleValue "''05-03''"
          exampleMonthInput exampleMonthProps]
  have f1: "(exampleProps\<lparr>value := Some ''05-03-2024 14:30''\<rparr>)\<lparr>value := value exampleProps\<rparr>
      = exampleProps"
    using all [THEN conjunct1] unfolding n1 by simp
  have f2: "(exampleProps\<lparr>value := Some ''05-03''\<rparr>)\<lparr>value := value exampleProps\<rparr> = exampleProps"
    using all [THEN conjunct2, THEN conjunct2, THEN conjunct1] unfolding n2 by simp
  have f3: "(exampleMonthProps\<lparr>value := Some ''Mar''\<rparr>)\<lparr>value := value exampleMonthProps\<rparr>
      = exampleMonthProps"
    using all [THEN conjunct2, THEN conjunct2, THEN conjunct2, THEN conjunct2, THEN conjunct1]
    unfolding n3 by simp
  show ?thesis
    by (intro conjI) (fact n1, fact n2, fact n3, fact f1, fact f2, fact f3)
qed

section \<open>Deferral\<close>

text \<open>
  Claim C6. \<^verbatim>\<open>switchToNextMode\<close>, \<^verbatim>\<open>switchToPrevMode\<close> and \<^verbatim>\<open>handleSelect\<close> change neither
  the state nor the calls to \<^verbatim>\<open>onChange\<close>: each only schedules its task behind the tasks
  already waiting. With nothing else waiting, exactly one tick later the component is
  what the undelayed method makes of it.
\<close>

theorem transitions_deferred_by_one_tick:
  "state (switchToNextMode c) = state c
   \<and> notifications (switchToNextMode c) = notifications c
   \<and> queue (switchToNextMode c) = queue c @ [SwitchToNextModeUndelayed]
   \<and> state (switchToPrevMode c) = state c
   \<and> notifications (switchToPrevMode c) = notifications c
   \<and> queue (switchToPrevMode c) = queue c @ [SwitchToPrevModeUndelayed]
   \<and> state (handleSelect e v c) = state c
   \<and> notifications (handleSelect e v c) = notifications c
   \<and> queue (handleSelect e v c) = queue c @ [HandleSelectUndelayed e v]
   \<and> (queue c = [] \<longrightarrow>
         runTick E p (switchToNextMode c) = switchToNextModeUndelayed c
         \<and> runTick E p (switchToPrevMode c) = switchToPrevModeUndelayed c
         \<and> runTick E p (handleSelect e v c) = handleSelectUndelayed E p e v c)"
  by (simp add: switchToNextMode_def switchToPrevMode_def handleSelect_def tick_def runTick_def
      Component_queue_same)

text \<open>
  From mode \<^verbatim>\<open>day\<close>: the mode is still \<^verbatim>\<open>day\<close> when each handler returns, and is
  \<^verbatim>\<open>hour\<close>, respectively \<^verbatim>\<open>month\<close>, after the tick.
\<close>

theorem transitions_deferred_by_one_tick_witness:
  "queue (exampleInput Day) = []
   \<and> mode (state (switchToNextMode (exampleInput Day))) = Day
   \<and> mode (state (runTick exampleEnv exampleProps (switchToNextMode (exampleInput Day)))) = Hour
   \<and> mode (state (switchToPrevMode (exampleInput Day))) = Day
   \<and> mode (state (runTick exampleEnv exampleProps (switchToPrevMode (exampleInput Day)))) = Month
   \<and> state (handleSelect ''click'' exampleValue (exampleInput Day)) = state (exampleInput Day)
   \<and> year (state (runTick exampleEnv exampleProps (handleSelect ''click'' exampleValue (exampleInput Day))))
       = Some 2024"
  using transitions_deferred_by_one_tick
      [of "exampleInput Day" "''click''" exampleValue exampleEnv exampleProps]
  by (simp add: example_defs switchToNextModeUndelayed_simps switchToPrevModeUndelayed_simps
      getNextMode_simps getPrevMode_simps handleSelectUndelayed_other)

section \<open>Text edits\<close>

text \<open>
  What \<^verbatim>\<open>onInputValueChange\<close> does with the edited text: the stored fields are replaced
  exactly when the date library calls the result of \<^verbatim>\<open>moment(value, format)\<close> valid, and
  are kept otherwise; the mode, the popup and the scheduled tasks are never touched.
  Which strings the library calls valid under a format is the library's matter: the call
  passes the text and the format, and no third argument.
\<close>

lemma onInputValueChange_state:
  "state (onInputValueChange E p e s c) =
     (if isValid E (momentParse E s (getDateTimeFormat E p)) then
        (state c)\<lparr>
          year := Some (getYear E (momentParse E s (getDateTimeFormat E p))),
          month := Some (getMonth E (momentParse E s (getDateTimeFormat E p))),
          date := Some (getDate E (momentParse E s (getDateTimeFormat E p))),
          hour := Some (getHour E (momentParse E s (getDateTimeFormat E p))),
          minute := Some (getMinute E (momentParse E s (getDateTimeFormat E p)))\<rparr>
      else state c)"
  by (simp add: onInputValueChange_def Let_def invoke_frame)

lemma onInputValueChange_queue:
  "queue (onInputValueChange E p e s c) = queue c"
  by (simp add: onInputValueChange_def Let_def invoke_frame)

end
